theory Spec2Isabelle
  imports Complex_Main "HOL-Library.Multiset"
begin

section \<open>Support validator: \<open>StructureValidityAgent\<close> (DragDrop.ts)\<close>

text \<open>
  The validator adds, subtracts, halves, takes absolute values and compares with the
  literals \<open>0\<close> and \<open>0.1\<close>. JavaScript does this in doubles, where every operation
  rounds. The model does not fix the arithmetic: the operations are the fields of a
  record the functions take as their first argument, over any linearly ordered carrier
  (\<open><\<close> and \<open>Math.max\<close> are the order's). What is proved for every such record holds
  for the doubles with their rounding (finite values, no overflow to \<open>Infinity\<close> or
  \<open>NaN\<close>) as it does for the exact reals; the record \<open>exactArith\<close> below is the exact one,
  used to evaluate concrete structures whose numbers are far from every threshold.
\<close>

record 'n arith =
  jsAdd :: "'n \<Rightarrow> 'n \<Rightarrow> 'n"
  jsSub :: "'n \<Rightarrow> 'n \<Rightarrow> 'n"
  jsHalf :: "'n \<Rightarrow> 'n"
  jsAbs :: "'n \<Rightarrow> 'n"
  jsZero :: 'n
  jsTol :: 'n

definition exactArith :: "real arith" where
  "exactArith = \<lparr>jsAdd = (+), jsSub = (-), jsHalf = (\<lambda>v. v / 2), jsAbs = abs,
            jsZero = 0, jsTol = 0.1\<rparr>"

text \<open>
  A \<open>Block\<close> carries \<open>pos: number[]\<close> and \<open>size: number[]\<close>; every use in the
  source destructures exactly three components (\<open>[x, y, z]\<close>, \<open>[width, height, depth]\<close>),
  so both arrays are triples here. The field \<open>size\<close> is called \<open>size3\<close>, and \<open>type\<close>
  is called \<open>btype\<close>.
\<close>

record 'n Block =
  btype :: string
  pos :: "'n \<times> 'n \<times> 'n"
  size3 :: "'n \<times> 'n \<times> 'n"

text \<open>
  The issue strings of \<open>validateStructure\<close> are kept structured: \<open>NoBlocksInStructure\<close>
  stands for \<open>'No blocks in structure'\<close>, and \<open>BlockFloating i p\<close> for
  \<open>`Block ${i} at position (${block.pos.join(', ')}) is floating`\<close>.
\<close>

datatype 'n issue = NoBlocksInStructure | BlockFloating nat "'n \<times> 'n \<times> 'n"

record 'n validation =
  valid :: bool
  issues :: "'n issue list"

text \<open>\<open>checkOverlap\<close>: two closed ranges overlap.\<close>

definition checkOverlap :: "('n::linorder) \<Rightarrow> 'n \<Rightarrow> 'n \<Rightarrow> 'n \<Rightarrow> bool" where
  "checkOverlap min1 max1 min2 max2 = (\<not> (max1 < min2 \<or> max2 < min1))"

text \<open>
  The horizontal test that \<open>hasSupport\<close> and \<open>findSupportSurface\<close> both spell out:
  \<open>xOverlap && zOverlap\<close>.
\<close>

definition footprintOverlap :: "('n::linorder) arith \<Rightarrow> 'n Block \<Rightarrow> 'n Block \<Rightarrow> bool" where
  "footprintOverlap A block otherBlock =
     (case pos block of (x, y, z) \<Rightarrow>
      case size3 block of (width, height, depth) \<Rightarrow>
      case pos otherBlock of (ox, oy, oz) \<Rightarrow>
      case size3 otherBlock of (ow, oh, od) \<Rightarrow>
        let xOverlap = checkOverlap (jsSub A x (jsHalf A width)) (jsAdd A x (jsHalf A width))
                         (jsSub A ox (jsHalf A ow)) (jsAdd A ox (jsHalf A ow));
            zOverlap = checkOverlap (jsSub A z (jsHalf A depth)) (jsAdd A z (jsHalf A depth))
                         (jsSub A oz (jsHalf A od)) (jsAdd A oz (jsHalf A od))
        in xOverlap \<and> zOverlap)"

text \<open>\<open>onGround\<close> of \<open>hasSupport\<close>: \<open>Math.abs(y - height / 2) < 0.1\<close>.\<close>

definition onGround :: "('n::linorder) arith \<Rightarrow> 'n Block \<Rightarrow> bool" where
  "onGround A block =
     (case pos block of (x, y, z) \<Rightarrow>
      case size3 block of (width, height, depth) \<Rightarrow>
        jsAbs A (jsSub A y (jsHalf A height)) < jsTol A)"

text \<open>
  The body of the loop of \<open>hasSupport\<close> for one \<open>otherBlock\<close>: the other block's top is
  within 0.1 of this block's bottom, and the footprints overlap.
\<close>

definition restsOn :: "('n::linorder) arith \<Rightarrow> 'n Block \<Rightarrow> 'n Block \<Rightarrow> bool" where
  "restsOn A block otherBlock =
     (case pos block of (x, y, z) \<Rightarrow>
      case size3 block of (width, height, depth) \<Rightarrow>
      case pos otherBlock of (ox, oy, oz) \<Rightarrow>
      case size3 otherBlock of (ow, oh, od) \<Rightarrow>
        let bottomY = jsSub A y (jsHalf A height);
            otherTopY = jsAdd A oy (jsHalf A oh);
            verticallyAligned = jsAbs A (jsSub A bottomY otherTopY) < jsTol A
        in if verticallyAligned then footprintOverlap A block otherBlock else False)"

text \<open>
  The loop \<open>for (let i = 0; i < allBlocks.length; i++)\<close> of \<open>hasSupport\<close>, running on
  the blocks from index \<open>i\<close> on: \<open>continue\<close> at \<open>currentIndex\<close>, \<open>return true\<close> at
  the first supporting block, \<open>false\<close> when the list is exhausted.
\<close>

fun hasSupportLoop :: "('n::linorder) arith \<Rightarrow> 'n Block \<Rightarrow> 'n Block list \<Rightarrow> int \<Rightarrow> nat \<Rightarrow> bool" where
  "hasSupportLoop A block [] currentIndex i = False"
| "hasSupportLoop A block (otherBlock # rest) currentIndex i =
     (if int i = currentIndex then hasSupportLoop A block rest currentIndex (i + 1)
      else if restsOn A block otherBlock then True
      else hasSupportLoop A block rest currentIndex (i + 1))"

definition hasSupport :: "('n::linorder) arith \<Rightarrow> 'n Block \<Rightarrow> 'n Block list \<Rightarrow> int \<Rightarrow> bool" where
  "hasSupport A block allBlocks currentIndex =
     (if onGround A block then True else hasSupportLoop A block allBlocks currentIndex 0)"

text \<open>\<open>validateStructure\<close>: the loop over the indices collects one issue per floating block.\<close>

definition validateStep ::
  "('n::linorder) arith \<Rightarrow> 'n Block list \<Rightarrow> nat \<Rightarrow> 'n issue list \<Rightarrow> 'n issue list" where
  "validateStep A blocks i acc =
     (let block = blocks ! i in
      if \<not> hasSupport A block blocks (int i) then acc @ [BlockFloating i (pos block)] else acc)"

definition validateStructure :: "('n::linorder) arith \<Rightarrow> 'n Block list \<Rightarrow> 'n validation" where
  "validateStructure A blocks =
     (if length blocks = 0 then \<lparr>valid = False, issues = [NoBlocksInStructure]\<rparr>
      else let found = fold (validateStep A blocks) [0..<length blocks] []
           in \<lparr>valid = (length found = 0), issues = found\<rparr>)"

text \<open>\<open>findSupportSurface\<close>: the highest top among the placed blocks under the footprint,
  starting from ground level 0.\<close>

definition topY :: "('n::linorder) arith \<Rightarrow> 'n Block \<Rightarrow> 'n" where
  "topY A otherBlock =
     (case pos otherBlock of (ox, oy, oz) \<Rightarrow>
      case size3 otherBlock of (ow, oh, od) \<Rightarrow> jsAdd A oy (jsHalf A oh))"

definition findSupportSurface :: "('n::linorder) arith \<Rightarrow> 'n Block \<Rightarrow> 'n Block list \<Rightarrow> 'n" where
  "findSupportSurface A block placedBlocks =
     fold (\<lambda>otherBlock highestSupport.
             if footprintOverlap A block otherBlock then max highestSupport (topY A otherBlock)
             else highestSupport)
          placedBlocks (jsZero A)"

text \<open>
  \<open>fixFloatingBlocks\<close>. The indices are sorted by \<open>block.pos[1]\<close> with the comparator
  \<open>a.y - b.y\<close>, whose sign is the order of \<open>a.y\<close> and \<open>b.y\<close>;
  \<open>Array.prototype.sort\<close> is stable, as is \<open>sort_key\<close>. Each block is copied, moved
  onto its support surface when it has no support among the blocks placed so far
  (\<open>currentIndex = -1\<close>: no block is skipped), and pushed.
\<close>

definition posY :: "'n Block \<Rightarrow> 'n" where
  "posY block = (case pos block of (x, y, z) \<Rightarrow> y)"

definition sortedIndices :: "('n::linorder) Block list \<Rightarrow> nat list" where
  "sortedIndices blocks = sort_key (\<lambda>index. posY (blocks ! index)) [0..<length blocks]"

definition fixStep ::
  "('n::linorder) arith \<Rightarrow> 'n Block list \<Rightarrow> nat \<Rightarrow> 'n Block list \<Rightarrow> 'n Block list" where
  "fixStep A blocks index fixedBlocks =
     (let block = blocks ! index in
      if \<not> hasSupport A block fixedBlocks (- 1) then
        (let supportY = findSupportSurface A block fixedBlocks in
         case pos block of (x, y, z) \<Rightarrow>
         case size3 block of (width, height, depth) \<Rightarrow>
           fixedBlocks @ [block\<lparr>pos := (x, jsAdd A supportY (jsHalf A height), z)\<rparr>])
      else fixedBlocks @ [block])"

definition fixFloatingBlocks :: "('n::linorder) arith \<Rightarrow> 'n Block list \<Rightarrow> 'n Block list" where
  "fixFloatingBlocks A blocks = fold (fixStep A blocks) (sortedIndices blocks) []"

subsection \<open>The same functions with the failing reads written out\<close>

text \<open>
  With a well-typed \<open>Block[]\<close> the one way these functions can throw is a read off the
  end of an array: \<open>blocks[i]\<close> is then \<open>undefined\<close>, and destructuring its \<open>pos\<close>
  throws a \<open>TypeError\<close>. Here every read by index (\<open>blocks[i]\<close> in
  \<open>validateStructure\<close>, \<open>allBlocks[i]\<close> in \<open>hasSupport\<close>, \<open>blocks[index]\<close> in
  \<open>fixFloatingBlocks\<close>) goes through \<open>elemAt\<close>, the loops run over the indices the
  source runs over, and an exception ends the call. The \<open>for ... of\<close> loop of
  \<open>findSupportSurface\<close> and the callbacks of \<open>map\<close> and \<open>sort\<close> read no index.
\<close>

datatype jsError = TypeError

definition elemAt :: "'a list \<Rightarrow> nat \<Rightarrow> jsError + 'a" where
  "elemAt xs i = (if i < length xs then Inr (xs ! i) else Inl TypeError)"

fun hasSupportLoopE ::
  "('n::linorder) arith \<Rightarrow> 'n Block \<Rightarrow> 'n Block list \<Rightarrow> int \<Rightarrow> nat list \<Rightarrow> jsError + bool" where
  "hasSupportLoopE A block allBlocks currentIndex [] = Inr False"
| "hasSupportLoopE A block allBlocks currentIndex (i # rest) =
     (if int i = currentIndex then hasSupportLoopE A block allBlocks currentIndex rest
      else case elemAt allBlocks i of
             Inl e \<Rightarrow> Inl e
           | Inr otherBlock \<Rightarrow>
               if restsOn A block otherBlock then Inr True
               else hasSupportLoopE A block allBlocks currentIndex rest)"

definition hasSupportE ::
  "('n::linorder) arith \<Rightarrow> 'n Block \<Rightarrow> 'n Block list \<Rightarrow> int \<Rightarrow> jsError + bool" where
  "hasSupportE A block allBlocks currentIndex =
     (if onGround A block then Inr True
      else hasSupportLoopE A block allBlocks currentIndex [0..<length allBlocks])"

fun validateLoopE ::
  "('n::linorder) arith \<Rightarrow> 'n Block list \<Rightarrow> nat list \<Rightarrow> 'n issue list \<Rightarrow> jsError + 'n issue list" where
  "validateLoopE A blocks [] acc = Inr acc"
| "validateLoopE A blocks (i # rest) acc =
     (case elemAt blocks i of
        Inl e \<Rightarrow> Inl e
      | Inr block \<Rightarrow>
          (case hasSupportE A block blocks (int i) of
             Inl e \<Rightarrow> Inl e
           | Inr supported \<Rightarrow>
               validateLoopE A blocks rest
                 (if \<not> supported then acc @ [BlockFloating i (pos block)] else acc)))"

definition validateStructureE ::
  "('n::linorder) arith \<Rightarrow> 'n Block list \<Rightarrow> jsError + 'n validation" where
  "validateStructureE A blocks =
     (if length blocks = 0 then Inr \<lparr>valid = False, issues = [NoBlocksInStructure]\<rparr>
      else case validateLoopE A blocks [0..<length blocks] [] of
             Inl e \<Rightarrow> Inl e
           | Inr found \<Rightarrow> Inr \<lparr>valid = (length found = 0), issues = found\<rparr>)"

fun fixLoopE ::
  "('n::linorder) arith \<Rightarrow> 'n Block list \<Rightarrow> nat list \<Rightarrow> 'n Block list \<Rightarrow> jsError + 'n Block list" where
  "fixLoopE A blocks [] fixedBlocks = Inr fixedBlocks"
| "fixLoopE A blocks (index # rest) fixedBlocks =
     (case elemAt blocks index of
        Inl e \<Rightarrow> Inl e
      | Inr block \<Rightarrow>
          (case hasSupportE A block fixedBlocks (- 1) of
             Inl e \<Rightarrow> Inl e
           | Inr supported \<Rightarrow>
               if \<not> supported then
                 (let supportY = findSupportSurface A block fixedBlocks in
                  case pos block of (x, y, z) \<Rightarrow>
                  case size3 block of (width, height, depth) \<Rightarrow>
                    fixLoopE A blocks rest
                      (fixedBlocks @ [block\<lparr>pos := (x, jsAdd A supportY (jsHalf A height), z)\<rparr>]))
               else fixLoopE A blocks rest (fixedBlocks @ [block])))"

definition fixFloatingBlocksE ::
  "('n::linorder) arith \<Rightarrow> 'n Block list \<Rightarrow> jsError + 'n Block list" where
  "fixFloatingBlocksE A blocks = fixLoopE A blocks (sortedIndices blocks) []"

subsection \<open>Derived notions used to state the validator's properties\<close>

text \<open>Everything of a block except its height coordinate \<open>pos[1]\<close>, the only field
  \<open>fixFloatingBlocks\<close> writes.\<close>

definition footprint :: "'n Block \<Rightarrow> string \<times> 'n \<times> 'n \<times> ('n \<times> 'n \<times> 'n)" where
  "footprint block = (case pos block of (x, y, z) \<Rightarrow> (btype block, x, z, size3 block))"

text \<open>The assignment \<open>block.pos[1] = supportY + height / 2\<close> of \<open>fixFloatingBlocks\<close>.\<close>

definition moveTo :: "('n::linorder) arith \<Rightarrow> 'n Block \<Rightarrow> 'n \<Rightarrow> 'n Block" where
  "moveTo A block supportY =
     (case pos block of (x, y, z) \<Rightarrow>
      case size3 block of (width, height, depth) \<Rightarrow>
        block\<lparr>pos := (x, jsAdd A supportY (jsHalf A height), z)\<rparr>)"

text \<open>Every placed block has support among the blocks placed before it: the invariant of
  the loop of \<open>fixFloatingBlocks\<close> as long as every repositioning lands.\<close>

definition chainSupported :: "('n::linorder) arith \<Rightarrow> 'n Block list \<Rightarrow> bool" where
  "chainSupported A placed =
     (\<forall>k<length placed. hasSupport A (placed ! k) (take k placed) (- 1))"

text \<open>
  Every repositioning of the pass lands: a body of the input put on the ground passes
  the ground test, and put on the top of a body of the output whose footprint it overlaps
  passes the rests-on test. Both tests recompute the bottom \<open>y - height / 2\<close> from the
  \<open>y = supportY + height / 2\<close> just assigned; in exact arithmetic that is \<open>supportY\<close>
  again, in doubles it is \<open>supportY\<close> up to the rounding of the two operations.
\<close>

definition liftsLand :: "('n::linorder) arith \<Rightarrow> 'n Block list \<Rightarrow> bool" where
  "liftsLand A bs =
     (\<forall>b\<in>set bs. onGround A (moveTo A b (jsZero A))
        \<and> (\<forall>other\<in>set (fixFloatingBlocks A bs).
              footprintOverlap A b other \<longrightarrow> restsOn A (moveTo A b (topY A other)) other))"

text \<open>No body rests on a body that is not strictly lower.\<close>

definition restsLower :: "('n::linorder) arith \<Rightarrow> 'n Block list \<Rightarrow> bool" where
  "restsLower A bs = (\<forall>a\<in>set bs. \<forall>b\<in>set bs. restsOn A a b \<longrightarrow> posY b < posY a)"

text \<open>
  Specification side: a body is reachable from the ground plane through the rests-on
  relation when it is on the ground, or rests on another body that is reachable.
\<close>

inductive groundReachable :: "('n::linorder) arith \<Rightarrow> 'n Block list \<Rightarrow> nat \<Rightarrow> bool"
  for A :: "'n arith" and bs :: "'n Block list" where
  ground: "i < length bs \<Longrightarrow> onGround A (bs ! i) \<Longrightarrow> groundReachable A bs i"
| rests: "i < length bs \<Longrightarrow> j < length bs \<Longrightarrow> j \<noteq> i \<Longrightarrow>
          restsOn A (bs ! i) (bs ! j) \<Longrightarrow> groundReachable A bs j \<Longrightarrow> groundReachable A bs i"

text \<open>Specification side: no zero or negative size, no two bodies at the same position,
  no two bodies with a common interior point.\<close>

definition interiorsMeet :: "real Block \<Rightarrow> real Block \<Rightarrow> bool" where
  "interiorsMeet a b =
     (case pos a of (x, y, z) \<Rightarrow>
      case size3 a of (width, height, depth) \<Rightarrow>
      case pos b of (ox, oy, oz) \<Rightarrow>
      case size3 b of (ow, oh, od) \<Rightarrow>
        x - width / 2 < ox + ow / 2 \<and> ox - ow / 2 < x + width / 2
        \<and> y - height / 2 < oy + oh / 2 \<and> oy - oh / 2 < y + height / 2
        \<and> z - depth / 2 < oz + od / 2 \<and> oz - od / 2 < z + depth / 2)"

definition nonDegenerate :: "real Block list \<Rightarrow> bool" where
  "nonDegenerate bs =
     (list_all (\<lambda>b. case size3 b of (w, h, d) \<Rightarrow> 0 < w \<and> 0 < h \<and> 0 < d) bs
      \<and> distinct (map pos bs)
      \<and> list_all (\<lambda>a. list_all (\<lambda>b. \<not> (a \<noteq> b \<and> interiorsMeet a b)) bs) bs)"

subsection \<open>Concrete structures\<close>

text \<open>Two unit cubes, the lower on the ground, the upper floating at height 5, and the
  upper one where it comes to rest on the lower.\<close>

definition stackLower :: "real Block" where
  "stackLower = \<lparr>btype = ''cube'', pos = (0, 0.5, 0), size3 = (1, 1, 1)\<rparr>"

definition stackUpper :: "real Block" where
  "stackUpper = \<lparr>btype = ''cube'', pos = (0, 5, 0), size3 = (1, 1, 1)\<rparr>"

definition stackRested :: "real Block" where
  "stackRested = \<lparr>btype = ''cube'', pos = (0, 1.5, 0), size3 = (1, 1, 1)\<rparr>"

text \<open>Two plates 0.05 high, side by side at height 5, touching along one edge.\<close>

definition thinA :: "real Block" where
  "thinA = \<lparr>btype = ''cube'', pos = (0, 5, 0), size3 = (1, 0.05, 1)\<rparr>"

definition thinB :: "real Block" where
  "thinB = \<lparr>btype = ''cube'', pos = (1, 5, 0), size3 = (1, 0.05, 1)\<rparr>"

text \<open>A unit cube on the ground; a plate 0.02 high beside it, at height 0.6, touching the
  cube's side face; and a second plate 0.02 high at height 1, further out, over the first
  plate's footprint and clear of the cube's.\<close>

definition baseBlock :: "real Block" where
  "baseBlock = \<lparr>btype = ''cube'', pos = (0, 0.5, 0), size3 = (1, 1, 1)\<rparr>"

definition thinBeside :: "real Block" where
  "thinBeside = \<lparr>btype = ''cube'', pos = (1, 0.6, 0), size3 = (1, 0.02, 1)\<rparr>"

definition thinSide :: "real Block" where
  "thinSide = \<lparr>btype = ''cube'', pos = (1.8, 1, 0), size3 = (1, 0.02, 1)\<rparr>"

section \<open>Stress engine: \<open>MaterialLibrary\<close>, \<open>SimulationBlock\<close> (ForceVector.ts) and
  \<open>FEASimulationEngine\<close> (FloatingUI.ts)\<close>

text \<open>
  The engine's numbers are real numbers: finite doubles with the rounding left out. The
  concrete runs below stay far from the thresholds 0.7 and 1.0.
\<close>

subsection \<open>The vector operations the engine calls\<close>

text \<open>
  \<open>THREE.Vector3\<close> belongs to the three.js library, not to the repository. The six
  operations \<open>runSimulation\<close> and \<open>applyDeformation\<close> call are written out as the
  library defines them: \<open>normalize()\<close> is \<open>divideScalar(length() || 1)\<close>, so the zero
  vector stays the zero vector, and \<open>divideScalar(s)\<close> is \<open>multiplyScalar(1 / s)\<close>.
  \<open>length\<close> and \<open>normalize\<close> carry the suffix \<open>V\<close>.
\<close>

datatype Vector3 = Vector3 (vecX: real) (vecY: real) (vecZ: real)

definition subVectors :: "Vector3 \<Rightarrow> Vector3 \<Rightarrow> Vector3" where
  "subVectors a b = Vector3 (vecX a - vecX b) (vecY a - vecY b) (vecZ a - vecZ b)"

definition multiplyScalar :: "Vector3 \<Rightarrow> real \<Rightarrow> Vector3" where
  "multiplyScalar v s = Vector3 (vecX v * s) (vecY v * s) (vecZ v * s)"

definition divideScalar :: "Vector3 \<Rightarrow> real \<Rightarrow> Vector3" where
  "divideScalar v s = multiplyScalar v (1 / s)"

definition lengthV :: "Vector3 \<Rightarrow> real" where
  "lengthV v = sqrt (vecX v * vecX v + vecY v * vecY v + vecZ v * vecZ v)"

definition normalizeV :: "Vector3 \<Rightarrow> Vector3" where
  "normalizeV v = divideScalar v (if lengthV v = 0 then 1 else lengthV v)"

definition dot :: "Vector3 \<Rightarrow> Vector3 \<Rightarrow> real" where
  "dot a b = vecX a * vecX b + vecY a * vecY b + vecZ a * vecZ b"

definition distanceToSquared :: "Vector3 \<Rightarrow> Vector3 \<Rightarrow> real" where
  "distanceToSquared a b =
     (let dx = vecX a - vecX b; dy = vecY a - vecY b; dz = vecZ a - vecZ b
      in dx * dx + dy * dy + dz * dz)"

definition distanceTo :: "Vector3 \<Rightarrow> Vector3 \<Rightarrow> real" where
  "distanceTo a b = sqrt (distanceToSquared a b)"

subsection \<open>Materials\<close>

datatype MaterialType = STEEL | CONCRETE | WOOD | ALUMINUM

datatype BoundaryCondition = FIXED | PINNED | FREE

datatype ForceType = COMPRESSION | TENSION | SHEAR | BENDING

text \<open>\<open>MaterialProperties\<close>; the field \<open>type\<close> is called \<open>mtype\<close>.\<close>

record MaterialProperties =
  mtype :: MaterialType
  density :: real
  maxCompression :: real
  maxTension :: real
  maxShear :: real
  youngsModulus :: real

text \<open>\<open>MaterialLibrary.getMaterial\<close>: the lookup in the static table.\<close>

fun getMaterial :: "MaterialType \<Rightarrow> MaterialProperties" where
  "getMaterial STEEL = \<lparr>mtype = STEEL, density = 7850, maxCompression = 400000000,
      maxTension = 400000000, maxShear = 250000000, youngsModulus = 200000000000\<rparr>"
| "getMaterial CONCRETE = \<lparr>mtype = CONCRETE, density = 2400, maxCompression = 30000000,
      maxTension = 3000000, maxShear = 5000000, youngsModulus = 30000000000\<rparr>"
| "getMaterial WOOD = \<lparr>mtype = WOOD, density = 600, maxCompression = 30000000,
      maxTension = 60000000, maxShear = 10000000, youngsModulus = 11000000000\<rparr>"
| "getMaterial ALUMINUM = \<lparr>mtype = ALUMINUM, density = 2700, maxCompression = 300000000,
      maxTension = 300000000, maxShear = 200000000, youngsModulus = 69000000000\<rparr>"

subsection \<open>Blocks\<close>

text \<open>
  Of a \<open>THREE.Mesh\<close> the engine reads and writes \<open>position\<close> and \<open>scale\<close>, reads the
  world position (\<open>getWorldPosition\<close>) and, in the constructor of \<open>SimulationBlock\<close>,
  the size of the bounding box (\<open>Box3.setFromObject(mesh).getSize\<close>). Geometry colour
  attributes and material fields, which \<open>applyVonMisesColoring\<close> and the resets write,
  are not part of the state modelled here.

  Of a \<open>ForceVector\<close> the engine reads \<open>position\<close>, \<open>direction\<close> and \<open>magnitude\<close>;
  \<open>position\<close> is called \<open>forcePosition\<close>.
\<close>

record Mesh =
  position :: Vector3
  scale :: Vector3
  worldPosition :: Vector3
  boundingSize :: Vector3

record ForceVector =
  forcePosition :: Vector3
  direction :: Vector3
  magnitude :: real

record BlockProperties =
  mesh :: Mesh
  material :: MaterialProperties
  boundaryCondition :: BoundaryCondition
  mass :: real
  volume :: real
  stress :: real
  failed :: bool

record SimulationBlock =
  properties :: BlockProperties
  originalPosition :: Vector3
  originalScale :: Vector3
  deformationFactor :: real

text \<open>The constructor of \<open>SimulationBlock\<close>.\<close>

definition newSimulationBlock :: "Mesh \<Rightarrow> MaterialType \<Rightarrow> BoundaryCondition \<Rightarrow> SimulationBlock" where
  "newSimulationBlock m materialType boundary =
     (let mat = getMaterial materialType;
          sz = boundingSize m;
          vol = vecX sz * vecY sz * vecZ sz;
          ms = density mat * vol
      in \<lparr>properties = \<lparr>mesh = m, material = mat, boundaryCondition = boundary,
                          mass = ms, volume = vol, stress = 0, failed = False\<rparr>,
          originalPosition = position m, originalScale = scale m, deformationFactor = 1\<rparr>)"

text \<open>
  \<open>calculateStress\<close>. The division is the one of the reals; the limits of every library
  material are positive.
\<close>

definition calculateStress :: "real \<Rightarrow> ForceType \<Rightarrow> SimulationBlock \<Rightarrow> SimulationBlock" where
  "calculateStress appliedForce forceType b =
     (let p = properties b;
          limit = (case forceType of
                     COMPRESSION \<Rightarrow> maxCompression (material p)
                   | TENSION \<Rightarrow> maxTension (material p)
                   | SHEAR \<Rightarrow> maxShear (material p)
                   | BENDING \<Rightarrow> min (maxTension (material p)) (maxCompression (material p)));
          p1 = p\<lparr>stress := \<bar>appliedForce\<bar> / limit\<rparr>;
          p2 = (if stress p1 \<ge> 1.0 then p1\<lparr>failed := True\<rparr> else p1)
      in b\<lparr>properties := p2\<rparr>)"

definition applyDeformation :: "real \<Rightarrow> SimulationBlock \<Rightarrow> SimulationBlock" where
  "applyDeformation scaleFactor b =
     (if boundaryCondition (properties b) = FIXED then b
      else let f = 1.0 + (stress (properties b) * 0.1 * scaleFactor);
               p = properties b
           in b\<lparr>deformationFactor := f,
                properties := p\<lparr>mesh := (mesh p)\<lparr>scale := multiplyScalar (originalScale b) f\<rparr>\<rparr>\<rparr>)"

definition resetDeformation :: "SimulationBlock \<Rightarrow> SimulationBlock" where
  "resetDeformation b =
     (let p = properties b
      in b\<lparr>properties := p\<lparr>mesh := (mesh p)\<lparr>scale := originalScale b,
                                              position := originalPosition b\<rparr>\<rparr>,
           deformationFactor := 1.0\<rparr>)"

definition reset :: "SimulationBlock \<Rightarrow> SimulationBlock" where
  "reset b =
     (let b1 = resetDeformation b
      in b1\<lparr>properties := (properties b1)\<lparr>stress := 0.0, failed := False\<rparr>\<rparr>)"

subsection \<open>The engine\<close>

text \<open>
  \<open>blocks: Map<THREE.Mesh, SimulationBlock>\<close> is iterated in insertion order and each
  block carries its mesh, so the map is the list of its values. The private field
  \<open>gravity\<close> is assigned once, at its declaration.
\<close>

record FEASimulationEngine =
  blocks :: "SimulationBlock list"
  deformationScale :: real
  currentForceVector :: "ForceVector option"

definition gravity :: real where
  "gravity = 9.81"

definition newEngine :: FEASimulationEngine where
  "newEngine = \<lparr>blocks = [], deformationScale = 5.0, currentForceVector = None\<rparr>"

text \<open>\<open>addBlock\<close> for a mesh that is not registered yet: \<open>Map.set\<close> appends the new key.\<close>

definition addBlock ::
  "Mesh \<Rightarrow> MaterialType \<Rightarrow> BoundaryCondition \<Rightarrow> FEASimulationEngine \<Rightarrow> FEASimulationEngine" where
  "addBlock m materialType boundary eng =
     eng\<lparr>blocks := blocks eng @ [newSimulationBlock m materialType boundary]\<rparr>"

text \<open>
  The body of \<open>this.blocks.forEach\<close> in \<open>runSimulation\<close>, in three parts.
  First the alignment and the effective force of one block, and the call of
  \<open>calculateStress\<close> with the force type the alignment selects.
\<close>

definition alignmentOf :: "ForceVector \<Rightarrow> SimulationBlock \<Rightarrow> real" where
  "alignmentOf forceVector b =
     (let meshPosition = worldPosition (mesh (properties b));
          directionToMesh = normalizeV (subVectors meshPosition (forcePosition forceVector))
      in dot directionToMesh (direction forceVector))"

definition effectiveForceOf :: "ForceVector \<Rightarrow> SimulationBlock \<Rightarrow> real" where
  "effectiveForceOf forceVector b =
     (let meshPosition = worldPosition (mesh (properties b));
          distanceToForce = distanceTo meshPosition (forcePosition forceVector);
          alignment = alignmentOf forceVector b;
          distanceFactor = 1.0 / max 1.0 (distanceToForce ^ 2)
      in magnitude forceVector * \<bar>alignment\<bar> * distanceFactor * 100000000)"

definition applyForce :: "ForceVector \<Rightarrow> SimulationBlock \<Rightarrow> SimulationBlock" where
  "applyForce forceVector b =
     (let alignment = alignmentOf forceVector b;
          effectiveForce = effectiveForceOf forceVector b
      in if alignment > 0.7 then calculateStress effectiveForce COMPRESSION b
         else if alignment < - 0.7 then calculateStress effectiveForce TENSION b
         else calculateStress effectiveForce SHEAR b)"

text \<open>Then the gravitational stress of a block that is not fixed.\<close>

definition addGravityStress :: "SimulationBlock \<Rightarrow> SimulationBlock" where
  "addGravityStress b =
     (let p = properties b in
      if boundaryCondition p \<noteq> FIXED then
        (let gravitationalForce = mass p * gravity;
             gravityStress = gravitationalForce / maxCompression (material p)
         in b\<lparr>properties := p\<lparr>stress := stress p + gravityStress\<rparr>\<rparr>)
      else b)"

text \<open>Then the deformation, with the engine's \<open>deformationScale\<close>.\<close>

definition simulateBlock :: "real \<Rightarrow> ForceVector \<Rightarrow> SimulationBlock \<Rightarrow> SimulationBlock" where
  "simulateBlock defScale forceVector b =
     applyDeformation defScale (addGravityStress (applyForce forceVector b))"

text \<open>
  The value \<open>runSimulation\<close> returns; \<open>results\<close> lists \<open>{stress, failed}\<close> in the order
  of the blocks.
\<close>

record SimulationResult =
  totalBlocks :: nat
  failedBlocks :: nat
  maxStress :: real
  results :: "(real \<times> bool) list"

definition runStep ::
  "real \<Rightarrow> ForceVector \<Rightarrow> SimulationBlock
     \<Rightarrow> SimulationBlock list \<times> (real \<times> bool) list \<times> nat \<times> real
     \<Rightarrow> SimulationBlock list \<times> (real \<times> bool) list \<times> nat \<times> real" where
  "runStep defScale forceVector b acc =
     (case acc of (processed, res, failedCount, maxS) \<Rightarrow>
        let b' = simulateBlock defScale forceVector b;
            p = properties b'
        in (processed @ [b'], res @ [(stress p, failed p)],
            (if failed p then failedCount + 1 else failedCount),
            max maxS (stress p)))"

definition runSimulation ::
  "FEASimulationEngine \<Rightarrow> ForceVector \<Rightarrow> FEASimulationEngine \<times> SimulationResult" where
  "runSimulation eng forceVector =
     (let eng1 = eng\<lparr>currentForceVector := Some forceVector\<rparr>
      in case fold (runStep (deformationScale eng1) forceVector) (blocks eng1) ([], [], 0, 0) of
           (processed, res, failedCount, maxS) \<Rightarrow>
             (eng1\<lparr>blocks := processed\<rparr>,
              \<lparr>totalBlocks = length (blocks eng1), failedBlocks = failedCount,
               maxStress = maxS, results = res\<rparr>))"

definition resetSimulation :: "FEASimulationEngine \<Rightarrow> FEASimulationEngine" where
  "resetSimulation eng =
     eng\<lparr>blocks := map (\<lambda>b. let b1 = resetDeformation b
                               in b1\<lparr>properties := (properties b1)\<lparr>stress := 0, failed := False\<rparr>\<rparr>)
                        (blocks eng)\<rparr>"

definition clearVectors :: "FEASimulationEngine \<Rightarrow> FEASimulationEngine" where
  "clearVectors eng = eng\<lparr>currentForceVector := None, blocks := map reset (blocks eng)\<rparr>"

text \<open>
  \<open>getStressColor\<close>. \<open>THREE.Color\<close> belongs to three.js: the constructor from a hex
  code and \<open>lerpColors\<close> are parameters.
\<close>

definition getStressColor ::
  "(nat \<Rightarrow> 'c) \<Rightarrow> ('c \<Rightarrow> 'c \<Rightarrow> real \<Rightarrow> 'c) \<Rightarrow> real \<Rightarrow> bool \<Rightarrow> 'c" where
  "getStressColor newColor lerpColors stressValue isFailed =
     (if isFailed \<or> stressValue \<ge> 1.0 then newColor 0xff0000
      else if stressValue < 0.3 then
        lerpColors (newColor 0x00ff00) (newColor 0x88ff00) (stressValue / 0.3)
      else if stressValue < 0.6 then
        (let t = (stressValue - 0.3) / 0.3
         in lerpColors (newColor 0x88ff00) (newColor 0xffff00) t)
      else
        (let t = (stressValue - 0.6) / 0.4
         in lerpColors (newColor 0xffff00) (newColor 0xff8800) t))"

text \<open>
  The colour arithmetic of three.js without colour-space conversion, to evaluate
  \<open>getStressColor\<close> on concrete ratios: \<open>setHex\<close> reads the three bytes as channels in
  \<open>[0, 1]\<close>, and \<open>lerpColors\<close> interpolates each channel.
\<close>

datatype Color = Color real real real

definition colorOfHex :: "nat \<Rightarrow> Color" where
  "colorOfHex hex =
     Color (real ((hex div 65536) mod 256) / 255) (real ((hex div 256) mod 256) / 255)
           (real (hex mod 256) / 255)"

fun lerpColorsRGB :: "Color \<Rightarrow> Color \<Rightarrow> real \<Rightarrow> Color" where
  "lerpColorsRGB (Color r1 g1 b1) (Color r2 g2 b2) alpha =
     Color (r1 + (r2 - r1) * alpha) (g1 + (g2 - g1) * alpha) (b1 + (b2 - b1) * alpha)"

subsection \<open>The stress formula and the colour ramp as the specification words them\<close>

text \<open>
  The distance is the Euclidean distance from the centroid to the force origin; the
  alignment is the dot product of the normalised vector from the origin to the centroid
  with the force direction (0 when the two points coincide); the limit is chosen by the
  thresholds 0.7 and -0.7; the ratio before self-weight is
  \<open>magnitude \<times> |alignment| \<times> (1 / max(1, distance\<^sup>2)) \<times> 1e8 / limit\<close>, and a body
  that is not fixed adds \<open>mass \<times> 9.81 / maxCompression\<close>.
\<close>

definition specDistance :: "ForceVector \<Rightarrow> SimulationBlock \<Rightarrow> real" where
  "specDistance fv b =
     (let c = worldPosition (mesh (properties b)); orig = forcePosition fv
      in sqrt ((vecX c - vecX orig)\<^sup>2 + (vecY c - vecY orig)\<^sup>2 + (vecZ c - vecZ orig)\<^sup>2))"

definition specAlignment :: "ForceVector \<Rightarrow> SimulationBlock \<Rightarrow> real" where
  "specAlignment fv b =
     (let c = worldPosition (mesh (properties b)); orig = forcePosition fv; d = direction fv
      in if specDistance fv b = 0 then 0
         else ((vecX c - vecX orig) / specDistance fv b) * vecX d
              + ((vecY c - vecY orig) / specDistance fv b) * vecY d
              + ((vecZ c - vecZ orig) / specDistance fv b) * vecZ d)"

definition specLimit :: "ForceVector \<Rightarrow> SimulationBlock \<Rightarrow> real" where
  "specLimit fv b =
     (if specAlignment fv b > 0.7 then maxCompression (material (properties b))
      else if specAlignment fv b < - 0.7 then maxTension (material (properties b))
      else maxShear (material (properties b)))"

definition specForceStress :: "ForceVector \<Rightarrow> SimulationBlock \<Rightarrow> real" where
  "specForceStress fv b =
     magnitude fv * \<bar>specAlignment fv b\<bar> * (1 / max 1 ((specDistance fv b)\<^sup>2)) * 100000000
       / specLimit fv b"

definition specStressRatio :: "ForceVector \<Rightarrow> SimulationBlock \<Rightarrow> real" where
  "specStressRatio fv b =
     specForceStress fv b
       + (if boundaryCondition (properties b) \<noteq> FIXED
          then mass (properties b) * 9.81 / maxCompression (material (properties b)) else 0)"

text \<open>The material of a block is the library's entry for its type, as the constructor
  leaves it.\<close>

definition fromLibrary :: "SimulationBlock \<Rightarrow> bool" where
  "fromLibrary b = (material (properties b) = getMaterial (mtype (material (properties b))))"

text \<open>The colour ramp, case by case; \<open>None\<close> where no case applies.\<close>

definition specColor ::
  "(nat \<Rightarrow> 'c) \<Rightarrow> ('c \<Rightarrow> 'c \<Rightarrow> real \<Rightarrow> 'c) \<Rightarrow> real \<Rightarrow> bool \<Rightarrow> 'c option" where
  "specColor newColor lerp ratio isFailed =
     (if isFailed \<or> ratio \<ge> 1.0 then Some (newColor 0xff0000)
      else if ratio < 0.3 then Some (lerp (newColor 0x00ff00) (newColor 0x88ff00) (ratio / 0.3))
      else if 0.3 \<le> ratio \<and> ratio < 0.6 then
        Some (lerp (newColor 0x88ff00) (newColor 0xffff00) ((ratio - 0.3) / 0.3))
      else if 0.6 \<le> ratio \<and> ratio < 1.0 then
        Some (lerp (newColor 0xffff00) (newColor 0xff8800) ((ratio - 0.6) / 0.4))
      else None)"

subsection \<open>Concrete bodies and forces\<close>

text \<open>A unit cube centred at \<open>(0, 0.5, 0)\<close>, as a free and as a fixed steel block, and a
  force of magnitude \<open>m\<close> pointing down from two units above its centre.\<close>

definition cubeMesh :: Mesh where
  "cubeMesh = \<lparr>position = Vector3 0 0.5 0, scale = Vector3 1 1 1,
               worldPosition = Vector3 0 0.5 0, boundingSize = Vector3 1 1 1\<rparr>"

definition forceAbove :: "real \<Rightarrow> ForceVector" where
  "forceAbove m = \<lparr>forcePosition = Vector3 0 2.5 0, direction = Vector3 0 (- 1) 0, magnitude = m\<rparr>"

definition steelCube :: SimulationBlock where
  "steelCube = newSimulationBlock cubeMesh STEEL FREE"

definition anchorCube :: SimulationBlock where
  "anchorCube = newSimulationBlock cubeMesh STEEL FIXED"

definition cubeEngine :: FEASimulationEngine where
  "cubeEngine = addBlock cubeMesh STEEL FREE newEngine"

text \<open>A concrete block of 5 by 5 by 5 standing on the ground, and a force of magnitude
  1.1 pointing down from two units above its centre.\<close>

definition concreteMesh :: Mesh where
  "concreteMesh = \<lparr>position = Vector3 0 2.5 0, scale = Vector3 1 1 1,
                   worldPosition = Vector3 0 2.5 0, boundingSize = Vector3 5 5 5\<rparr>"

definition pressDown :: ForceVector where
  "pressDown = \<lparr>forcePosition = Vector3 0 4.5 0, direction = Vector3 0 (- 1) 0, magnitude = 1.1\<rparr>"

section \<open>Properties of the validator\<close>

lemmas validator_defs = validateStructure_def validateStep_def hasSupport_def onGround_def
  restsOn_def footprintOverlap_def checkOverlap_def fixFloatingBlocks_def fixStep_def
  sortedIndices_def posY_def findSupportSurface_def topY_def footprint_def moveTo_def
  exactArith_def

subsection \<open>What the loops compute\<close>

lemma hasSupportLoop_iff:
  "hasSupportLoop A block others cur k \<longleftrightarrow>
     (\<exists>j<length others. int (k + j) \<noteq> cur \<and> restsOn A block (others ! j))"
proof (induction others arbitrary: k)
  case Nil
  show ?case by simp
next
  case (Cons a others)
  have split: "(\<exists>j<length (a # others). P j) \<longleftrightarrow> P 0 \<or> (\<exists>j<length others. P (Suc j))" for P
    by (auto simp: less_Suc_eq_0_disj)
  show ?case
    by (simp only: split hasSupportLoop.simps Cons.IH) auto
qed

lemma hasSupport_iff:
  "hasSupport A block others cur \<longleftrightarrow>
     onGround A block \<or> (\<exists>j<length others. int j \<noteq> cur \<and> restsOn A block (others ! j))"
  by (simp add: hasSupport_def hasSupportLoop_iff)

lemma hasSupport_all_iff:
  "hasSupport A block others (- 1) \<longleftrightarrow>
     onGround A block \<or> (\<exists>other\<in>set others. restsOn A block other)"
  by (simp add: hasSupport_iff) (metis in_set_conv_nth)

lemma fold_validateStep:
  "fold (validateStep A bs) idxs acc =
     acc @ map (\<lambda>i. BlockFloating i (pos (bs ! i)))
              (filter (\<lambda>i. \<not> hasSupport A (bs ! i) bs (int i)) idxs)"
  by (induction idxs arbitrary: acc) (simp_all add: validateStep_def)

lemma valid_iff:
  "valid (validateStructure A bs) \<longleftrightarrow>
     bs \<noteq> [] \<and> (\<forall>i<length bs. hasSupport A (bs ! i) bs (int i))"
  by (auto simp: validateStructure_def fold_validateStep filter_empty_conv)

lemma issues_length: "length (issues (validateStructure A bs)) \<le> max 1 (length bs)"
proof -
  have "length (filter (\<lambda>i. \<not> hasSupport A (bs ! i) bs (int i)) [0..<length bs])
          \<le> length [0..<length bs]"
    by (rule length_filter_le)
  then show ?thesis by (auto simp: validateStructure_def fold_validateStep)
qed

lemma findSupportSurface_fold_cases:
  "fold (\<lambda>otherBlock highestSupport.
             if footprintOverlap A block otherBlock then max highestSupport (topY A otherBlock)
             else highestSupport) placed h = h
   \<or> (\<exists>other\<in>set placed. footprintOverlap A block other \<and>
        fold (\<lambda>otherBlock highestSupport.
             if footprintOverlap A block otherBlock then max highestSupport (topY A otherBlock)
             else highestSupport) placed h = topY A other)"
proof (induction placed arbitrary: h)
  case Nil
  show ?case by simp
next
  case (Cons a placed)
  show ?case
    using Cons.IH[of "max h (topY A a)"] Cons.IH[of h]
    by (auto simp: max_def split: if_splits)
qed

lemma findSupportSurface_cases:
  "findSupportSurface A block placed = jsZero A
   \<or> (\<exists>other\<in>set placed. footprintOverlap A block other
        \<and> findSupportSurface A block placed = topY A other)"
  unfolding findSupportSurface_def by (rule findSupportSurface_fold_cases)

lemma fixStep_eq:
  "fixStep A bs index placed =
     placed @ [if hasSupport A (bs ! index) placed (- 1) then bs ! index
               else moveTo A (bs ! index) (findSupportSurface A (bs ! index) placed)]"
  by (simp add: fixStep_def moveTo_def Let_def split: prod.splits)

lemma moveTo_footprint [simp]: "footprint (moveTo A block s) = footprint block"
  by (simp add: moveTo_def footprint_def split: prod.splits)

lemma fold_fixStep_length:
  "length (fold (fixStep A bs) idxs placed) = length placed + length idxs"
  by (induction idxs arbitrary: placed) (simp_all add: fixStep_eq)

lemma fixFloatingBlocks_length [simp]: "length (fixFloatingBlocks A bs) = length bs"
  by (simp add: fixFloatingBlocks_def fold_fixStep_length sortedIndices_def)

lemma fold_fixStep_footprint:
  "map footprint (fold (fixStep A bs) idxs placed)
     = map footprint placed @ map (\<lambda>i. footprint (bs ! i)) idxs"
  by (induction idxs arbitrary: placed) (simp_all add: fixStep_eq)

lemma fold_fixStep_prefix: "\<exists>ext. fold (fixStep A bs) idxs placed = placed @ ext"
proof (induction idxs arbitrary: placed)
  case Nil
  show ?case by simp
next
  case (Cons i idxs)
  obtain b where b: "fixStep A bs i placed = placed @ [b]"
    by (simp add: fixStep_eq)
  obtain ext where "fold (fixStep A bs) idxs (placed @ [b]) = (placed @ [b]) @ ext"
    using Cons.IH by blast
  then have "fold (fixStep A bs) (i # idxs) placed = placed @ (b # ext)"
    using b by simp
  then show ?case by blast
qed

lemma map_nth_upt: "map (\<lambda>i. f (bs ! i)) [0..<length bs] = map f bs"
proof -
  have "map (\<lambda>i. f (bs ! i)) [0..<length bs] = map f (map (nth bs) [0..<length bs])"
    by simp
  then show ?thesis by (simp only: map_nth)
qed

lemma set_sortedIndices [simp]: "set (sortedIndices bs) = {0..<length bs}"
  by (simp add: sortedIndices_def)

lemma sorted_sortedIndices:
  "sorted (map (\<lambda>i. posY (bs ! i)) (sortedIndices bs))"
  by (simp add: sortedIndices_def)

lemma set_map_sortedIndices: "set (map (nth bs) (sortedIndices bs)) = set bs"
proof -
  have "set (map (nth bs) (sortedIndices bs)) = set (map (nth bs) [0..<length bs])"
    by simp
  then show ?thesis by (simp only: map_nth)
qed

lemma mset_map_sortedIndices: "mset (map (nth bs) (sortedIndices bs)) = mset bs"
proof -
  have "mset (map (nth bs) (sortedIndices bs)) = image_mset (nth bs) (mset (sortedIndices bs))"
    by simp
  also have "\<dots> = image_mset (nth bs) (mset [0..<length bs])"
    by (simp add: sortedIndices_def)
  also have "\<dots> = mset (map (nth bs) [0..<length bs])" by simp
  finally show ?thesis by (simp only: map_nth)
qed

subsection \<open>No read by index leaves its array\<close>

lemma hasSupportLoopE_total:
  "set idxs \<subseteq> {0..<length others} \<Longrightarrow>
     hasSupportLoopE A block others cur idxs
       = Inr (\<exists>i\<in>set idxs. int i \<noteq> cur \<and> restsOn A block (others ! i))"
  by (induction idxs) (auto simp: elemAt_def)

lemma hasSupportE_total: "hasSupportE A block others cur = Inr (hasSupport A block others cur)"
proof -
  have "hasSupportLoopE A block others cur [0..<length others]
          = Inr (\<exists>i\<in>set [0..<length others]. int i \<noteq> cur \<and> restsOn A block (others ! i))"
    by (rule hasSupportLoopE_total) simp
  then show ?thesis by (auto simp: hasSupportE_def hasSupport_iff)
qed

lemma validateLoopE_total:
  "set idxs \<subseteq> {0..<length bs} \<Longrightarrow>
     validateLoopE A bs idxs acc = Inr (fold (validateStep A bs) idxs acc)"
  by (induction idxs arbitrary: acc)
     (simp_all add: elemAt_def hasSupportE_total validateStep_def)

lemma fixLoopE_total:
  "set idxs \<subseteq> {0..<length bs} \<Longrightarrow>
     fixLoopE A bs idxs placed = Inr (fold (fixStep A bs) idxs placed)"
  by (induction idxs arbitrary: placed)
     (simp_all add: elemAt_def hasSupportE_total fixStep_def Let_def split: prod.splits)

lemma validateStructureE_total: "validateStructureE A bs = Inr (validateStructure A bs)"
  by (simp add: validateStructureE_def validateStructure_def validateLoopE_total Let_def)

lemma fixFloatingBlocksE_total: "fixFloatingBlocksE A bs = Inr (fixFloatingBlocks A bs)"
  by (simp add: fixFloatingBlocksE_def fixFloatingBlocks_def fixLoopE_total)

subsection \<open>The pass of \<open>fixFloatingBlocks\<close> keeps every placed block supported
  when every repositioning lands\<close>

lemma moveTo_supported:
  assumes g: "onGround A (moveTo A block (jsZero A))"
    and r: "\<forall>other\<in>set placed. footprintOverlap A block other \<longrightarrow>
              restsOn A (moveTo A block (topY A other)) other"
  shows "hasSupport A (moveTo A block (findSupportSurface A block placed)) placed (- 1)"
proof -
  consider "findSupportSurface A block placed = jsZero A"
    | other where "other \<in> set placed" "footprintOverlap A block other"
        "findSupportSurface A block placed = topY A other"
    using findSupportSurface_cases[of A block placed] by blast
  then show ?thesis
  proof cases
    case 1
    then show ?thesis using g by (simp add: hasSupport_all_iff)
  next
    case 2
    then have "restsOn A (moveTo A block (findSupportSurface A block placed)) other"
      using r by simp
    then show ?thesis unfolding hasSupport_all_iff using 2(1) by blast
  qed
qed

lemma chainSupported_snoc:
  "chainSupported A placed \<Longrightarrow> hasSupport A b placed (- 1) \<Longrightarrow> chainSupported A (placed @ [b])"
  by (auto simp: chainSupported_def less_Suc_eq nth_append)

lemma fold_fixStep_chain:
  assumes "chainSupported A placed"
    and "\<forall>i\<in>set idxs. onGround A (moveTo A (bs ! i) (jsZero A))
           \<and> (\<forall>other\<in>set (fold (fixStep A bs) idxs placed).
                 footprintOverlap A (bs ! i) other \<longrightarrow>
                 restsOn A (moveTo A (bs ! i) (topY A other)) other)"
  shows "chainSupported A (fold (fixStep A bs) idxs placed)"
  using assms
proof (induction idxs arbitrary: placed)
  case Nil
  then show ?case by simp
next
  case (Cons i idxs)
  let ?next = "fixStep A bs i placed"
  let ?out = "fold (fixStep A bs) idxs ?next"
  have out: "fold (fixStep A bs) (i # idxs) placed = ?out" by simp
  obtain ext where ext: "?out = ?next @ ext"
    using fold_fixStep_prefix by blast
  have sub: "set placed \<subseteq> set ?out"
    unfolding ext by (auto simp: fixStep_eq)
  have g: "onGround A (moveTo A (bs ! i) (jsZero A))"
    using Cons.prems(2) by simp
  have r: "\<forall>other\<in>set placed. footprintOverlap A (bs ! i) other \<longrightarrow>
             restsOn A (moveTo A (bs ! i) (topY A other)) other"
    using Cons.prems(2) sub unfolding out by auto
  have "hasSupport A (if hasSupport A (bs ! i) placed (- 1) then bs ! i
           else moveTo A (bs ! i) (findSupportSurface A (bs ! i) placed)) placed (- 1)"
    using moveTo_supported[OF g r] by simp
  then have chain: "chainSupported A ?next"
    unfolding fixStep_eq using Cons.prems(1) by (rule chainSupported_snoc[rotated])
  have rest: "\<forall>j\<in>set idxs. onGround A (moveTo A (bs ! j) (jsZero A))
           \<and> (\<forall>other\<in>set ?out.
                 footprintOverlap A (bs ! j) other \<longrightarrow>
                 restsOn A (moveTo A (bs ! j) (topY A other)) other)"
    using Cons.prems(2) unfolding out by simp
  show ?case unfolding out using chain rest by (rule Cons.IH)
qed

lemma fixFloatingBlocks_chain:
  assumes "liftsLand A bs"
  shows "chainSupported A (fixFloatingBlocks A bs)"
proof -
  have "\<forall>i\<in>set (sortedIndices bs). onGround A (moveTo A (bs ! i) (jsZero A))
           \<and> (\<forall>other\<in>set (fold (fixStep A bs) (sortedIndices bs) []).
                 footprintOverlap A (bs ! i) other \<longrightarrow>
                 restsOn A (moveTo A (bs ! i) (topY A other)) other)"
    using assms by (simp add: liftsLand_def fixFloatingBlocks_def)
  then show ?thesis
    unfolding fixFloatingBlocks_def
    by (intro fold_fixStep_chain) (simp_all add: chainSupported_def)
qed

lemma chainSupported_hasSupport:
  assumes "chainSupported A placed" "i < length placed"
  shows "hasSupport A (placed ! i) placed (int i)"
proof -
  have "hasSupport A (placed ! i) (take i placed) (- 1)"
    using assms by (simp add: chainSupported_def)
  then consider "onGround A (placed ! i)"
    | j where "j < i" "restsOn A (placed ! i) (placed ! j)"
    using assms(2) by (auto simp: hasSupport_iff)
  then show ?thesis
  proof cases
    case 1
    then show ?thesis by (simp add: hasSupport_iff)
  next
    case 2
    then have "j < length placed \<and> int j \<noteq> int i \<and> restsOn A (placed ! i) (placed ! j)"
      using assms(2) by simp
    then show ?thesis unfolding hasSupport_iff by blast
  qed
qed

lemma valid_fix:
  assumes "bs \<noteq> []" "liftsLand A bs"
  shows "valid (validateStructure A (fixFloatingBlocks A bs))"
  unfolding valid_iff
  using chainSupported_hasSupport[OF fixFloatingBlocks_chain[OF assms(2)]] assms(1)
  by (metis fixFloatingBlocks_length length_0_conv)

subsection \<open>Structures whose bodies rest only on strictly lower bodies\<close>

lemma valid_lower_reachable:
  assumes v: "valid (validateStructure A bs)"
    and low: "restsLower A bs"
    and i: "i < length bs"
  shows "groundReachable A bs i"
  using i
proof (induction i rule: measure_induct_rule
         [where f = "\<lambda>i. card {j. j < length bs \<and> posY (bs ! j) < posY (bs ! i)}"])
  case (less i)
  have "hasSupport A (bs ! i) bs (int i)"
    using v less.prems by (simp add: valid_iff)
  then consider "onGround A (bs ! i)"
    | j where "j < length bs" "j \<noteq> i" "restsOn A (bs ! i) (bs ! j)"
    by (auto simp: hasSupport_iff)
  then show ?case
  proof cases
    case 1
    then show ?thesis using less.prems by (rule groundReachable.ground[rotated])
  next
    case 2
    have lt: "posY (bs ! j) < posY (bs ! i)"
      using low 2(1,3) less.prems by (simp add: restsLower_def)
    have "{k. k < length bs \<and> posY (bs ! k) < posY (bs ! j)}
            \<subset> {k. k < length bs \<and> posY (bs ! k) < posY (bs ! i)}"
      using lt 2(1) by auto
    then have "card {k. k < length bs \<and> posY (bs ! k) < posY (bs ! j)}
            < card {k. k < length bs \<and> posY (bs ! k) < posY (bs ! i)}"
      by (intro psubset_card_mono) simp_all
    then have "groundReachable A bs j" using less.IH 2(1) by blast
    then show ?thesis using groundReachable.rests less.prems 2 by blast
  qed
qed

lemma fold_fixStep_unchanged:
  "\<forall>k<length idxs.
      hasSupport A (bs ! (idxs ! k)) (placed @ map (nth bs) (take k idxs)) (- 1)
   \<Longrightarrow> fold (fixStep A bs) idxs placed = placed @ map (nth bs) idxs"
proof (induction idxs arbitrary: placed)
  case Nil
  show ?case by simp
next
  case (Cons i idxs)
  have first: "hasSupport A (bs ! i) placed (- 1)"
    using Cons.prems[rule_format, of 0] by simp
  have rest: "\<forall>k<length idxs. hasSupport A (bs ! (idxs ! k))
                 ((placed @ [bs ! i]) @ map (nth bs) (take k idxs)) (- 1)"
  proof (intro allI impI)
    fix k assume "k < length idxs"
    then show "hasSupport A (bs ! (idxs ! k))
                 ((placed @ [bs ! i]) @ map (nth bs) (take k idxs)) (- 1)"
      using Cons.prems[rule_format, of "Suc k"] by simp
  qed
  show ?case
    using Cons.IH[OF rest] first by (simp add: fixStep_eq)
qed

lemma sorted_prefix_support:
  assumes v: "valid (validateStructure A bs)"
    and low: "restsLower A bs"
    and set: "set ordered = set bs"
    and sorted: "sorted (map posY ordered)"
    and k: "k < length ordered"
  shows "hasSupport A (ordered ! k) (take k ordered) (- 1)"
proof -
  have "ordered ! k \<in> set ordered" using k by simp
  then have "ordered ! k \<in> set bs" using set by simp
  then obtain i where i: "i < length bs" "bs ! i = ordered ! k"
    unfolding in_set_conv_nth by blast
  have "hasSupport A (bs ! i) bs (int i)"
    using v i(1) by (simp add: valid_iff)
  then consider "onGround A (bs ! i)"
    | j where "j < length bs" "restsOn A (bs ! i) (bs ! j)"
    by (auto simp: hasSupport_iff)
  then show ?thesis
  proof cases
    case 1
    then show ?thesis by (simp add: hasSupport_all_iff i(2))
  next
    case 2
    have mem: "bs ! j \<in> set bs" "bs ! i \<in> set bs" using 2(1) i(1) by simp_all
    then have "posY (bs ! j) < posY (bs ! i)"
      using low 2(2) unfolding restsLower_def by blast
    then have lt: "posY (bs ! j) < posY (ordered ! k)" using i(2) by simp
    have "bs ! j \<in> set ordered" using mem(1) set by simp
    then obtain p where p: "p < length ordered" "ordered ! p = bs ! j"
      unfolding in_set_conv_nth by blast
    have "p < k"
    proof (rule ccontr)
      assume "\<not> p < k"
      then have "k \<le> p" by simp
      then have "map posY ordered ! k \<le> map posY ordered ! p"
        using sorted p(1) by (intro sorted_nth_mono) simp_all
      then show False using lt p k by simp
    qed
    then have "p < length (take k ordered)" "take k ordered ! p = bs ! j"
      using p k by simp_all
    then have "bs ! j \<in> set (take k ordered)"
      using nth_mem by metis
    then show ?thesis using 2(2) i(2) by (auto simp: hasSupport_all_iff)
  qed
qed

lemma fix_unchanged:
  assumes v: "valid (validateStructure A bs)" and low: "restsLower A bs"
  shows "fixFloatingBlocks A bs = map (nth bs) (sortedIndices bs)"
proof -
  define ordered where "ordered = map (nth bs) (sortedIndices bs)"
  have set: "set ordered = set bs"
    unfolding ordered_def by (rule set_map_sortedIndices)
  have sorted: "sorted (map posY ordered)"
    unfolding ordered_def using sorted_sortedIndices[of bs] by (simp add: comp_def)
  have "\<forall>k<length (sortedIndices bs).
          hasSupport A (bs ! (sortedIndices bs ! k))
            ([] @ map (nth bs) (take k (sortedIndices bs))) (- 1)"
  proof (intro allI impI)
    fix k assume k: "k < length (sortedIndices bs)"
    then have "hasSupport A (ordered ! k) (take k ordered) (- 1)"
      using sorted_prefix_support[OF v low set sorted, of k]
      by (simp add: ordered_def)
    then show "hasSupport A (bs ! (sortedIndices bs ! k))
            ([] @ map (nth bs) (take k (sortedIndices bs))) (- 1)"
      using k by (simp add: ordered_def take_map)
  qed
  then have "fold (fixStep A bs) (sortedIndices bs) [] = [] @ ordered"
    unfolding ordered_def by (rule fold_fixStep_unchanged)
  then show ?thesis
    by (simp add: fixFloatingBlocks_def ordered_def)
qed

lemma thin_pair_unreachable: "groundReachable exactArith [thinA, thinB] i \<Longrightarrow> False"
proof (induction rule: groundReachable.induct)
  case (ground i)
  then have "i = 0 \<or> i = 1" by auto
  then show ?case
    using ground(2) by (auto simp: onGround_def exactArith_def thinA_def thinB_def)
next
  case (rests i j)
  then show ?case by simp
qed

subsection \<open>Exact arithmetic\<close>

text \<open>In exact arithmetic every repositioning lands: the recomputed bottom is the support
  level itself.\<close>

lemma liftsLand_exact: "liftsLand exactArith bs"
  by (auto simp: liftsLand_def moveTo_def onGround_def restsOn_def footprintOverlap_def
        topY_def exactArith_def split: prod.splits)

subsection \<open>The claims about \<open>validateStructure\<close> and \<open>fixFloatingBlocks\<close>\<close>

text \<open>
  Claim C2, as stated: \<open>validateStructure\<close> applied to zero bodies returns
  \<open>valid == true\<close> with an empty issue list. The source returns early on an empty list,
  with \<open>valid: false\<close> and one issue.
\<close>

theorem validate_empty_counterexample:
  "validateStructureE exactArith [] = Inr \<lparr>valid = False, issues = [NoBlocksInStructure]\<rparr>
   \<and> \<not> (valid (validateStructure exactArith []) \<and> issues (validateStructure exactArith []) = [])"
  by (simp add: validateStructureE_def validateStructure_def)

text \<open>
  Claim C2, amended: \<open>validateStructure\<close> and \<open>fixFloatingBlocks\<close> never throw, for any
  input list of bodies: no read by index leaves its array, so the calls with the failing
  reads written out end in a value, the one the functions above compute. Applied to zero
  bodies, \<open>validateStructure\<close> returns \<open>valid == false\<close> with the single issue
  \<open>'No blocks in structure'\<close>, and \<open>fixFloatingBlocks\<close> returns the empty list. For
  every input, \<open>fixFloatingBlocks\<close> returns as many bodies as it was given,
  \<open>valid\<close> holds exactly when the issue list is empty, and there is at most one issue
  per body (one issue for zero bodies).
\<close>

theorem validate_fix_return_data:
  "validateStructureE A bs = Inr (validateStructure A bs)
   \<and> fixFloatingBlocksE A bs = Inr (fixFloatingBlocks A bs)
   \<and> validateStructure A [] = \<lparr>valid = False, issues = [NoBlocksInStructure]\<rparr>
   \<and> fixFloatingBlocks A [] = []
   \<and> length (fixFloatingBlocks A bs) = length bs
   \<and> valid (validateStructure A bs) = (issues (validateStructure A bs) = [])
   \<and> length (issues (validateStructure A bs)) \<le> max 1 (length bs)"
proof (intro conjI)
  show "validateStructureE A bs = Inr (validateStructure A bs)"
    by (rule validateStructureE_total)
  show "fixFloatingBlocksE A bs = Inr (fixFloatingBlocks A bs)"
    by (rule fixFloatingBlocksE_total)
  show "validateStructure A [] = \<lparr>valid = False, issues = [NoBlocksInStructure]\<rparr>"
    by (simp add: validateStructure_def)
  show "fixFloatingBlocks A [] = []"
    by (simp add: fixFloatingBlocks_def sortedIndices_def)
  show "length (fixFloatingBlocks A bs) = length bs" by simp
  show "valid (validateStructure A bs) = (issues (validateStructure A bs) = [])"
    by (simp add: validateStructure_def Let_def)
  show "length (issues (validateStructure A bs)) \<le> max 1 (length bs)"
    by (rule issues_length)
qed

text \<open>Witness for C2: the lower cube with the upper cube floating above it. Validation
  ends with one issue, for the body at index 1; the fix ends with the upper cube resting
  on the lower.\<close>

theorem validate_fix_return_data_witness:
  "validateStructureE exactArith [stackLower, stackUpper]
     = Inr \<lparr>valid = False, issues = [BlockFloating 1 (0, 5, 0)]\<rparr>
   \<and> fixFloatingBlocksE exactArith [stackLower, stackUpper] = Inr [stackLower, stackRested]"
proof -
  have v: "validateStructure exactArith [stackLower, stackUpper]
             = \<lparr>valid = False, issues = [BlockFloating 1 (0, 5, 0)]\<rparr>"
    by (simp add: validator_defs stackLower_def stackUpper_def)
  have f: "fixFloatingBlocks exactArith [stackLower, stackUpper] = [stackLower, stackRested]"
    by (simp add: validator_defs stackLower_def stackUpper_def stackRested_def)
  show ?thesis
    using validate_fix_return_data[of exactArith "[stackLower, stackUpper]"] v f by simp
qed







text \<open>
  Claim C9: \<open>fixFloatingBlocks\<close> returns the bodies in non-decreasing order of their
  Y position before the fix, not in input order: the order of the output is a permutation
  of the input indices, sorted by the original \<open>pos[1]\<close>; the body at each output index
  is the input body of that rank, with at most its Y position changed; and an input that
  is not sorted by height does not come back in input order.
\<close>

theorem fix_returns_height_order:
  "mset (sortedIndices bs) = mset [0..<length bs]
   \<and> sorted (map (\<lambda>i. posY (bs ! i)) (sortedIndices bs))
   \<and> map footprint (fixFloatingBlocks A bs) = map (\<lambda>i. footprint (bs ! i)) (sortedIndices bs)
   \<and> (\<not> sorted (map posY bs) \<longrightarrow> sortedIndices bs \<noteq> [0..<length bs])"
proof (intro conjI impI)
  show "mset (sortedIndices bs) = mset [0..<length bs]" by (simp add: sortedIndices_def)
  show "sorted (map (\<lambda>i. posY (bs ! i)) (sortedIndices bs))" by (rule sorted_sortedIndices)
  show "map footprint (fixFloatingBlocks A bs) = map (\<lambda>i. footprint (bs ! i)) (sortedIndices bs)"
    by (simp add: fixFloatingBlocks_def fold_fixStep_footprint)
  assume ns: "\<not> sorted (map posY bs)"
  show "sortedIndices bs \<noteq> [0..<length bs]"
  proof
    assume "sortedIndices bs = [0..<length bs]"
    then have "sorted (map (\<lambda>i. posY (bs ! i)) [0..<length bs])"
      using sorted_sortedIndices[of bs] by simp
    then show False using ns by (simp only: map_nth_upt)
  qed
qed

text \<open>Witness for C9: the floating upper cube listed before the lower one comes back
  second, resting on the lower one.\<close>

theorem fix_returns_height_order_witness:
  "\<not> sorted (map posY [stackUpper, stackLower])
   \<and> sortedIndices [stackUpper, stackLower] = [1, 0]
   \<and> fixFloatingBlocks exactArith [stackUpper, stackLower] = [stackLower, stackRested]
   \<and> map footprint (fixFloatingBlocks exactArith [stackUpper, stackLower])
       = map (\<lambda>i. footprint ([stackUpper, stackLower] ! i)) (sortedIndices [stackUpper, stackLower])"
proof -
  have "posY stackUpper = 5" "posY stackLower = 0.5"
    by (simp_all add: posY_def stackUpper_def stackLower_def)
  then have ns: "\<not> sorted (map posY [stackUpper, stackLower])"
    by (simp only: list.map sorted2) simp
  have si: "sortedIndices [stackUpper, stackLower] = [1, 0]"
    by (simp add: sortedIndices_def posY_def stackUpper_def stackLower_def)
  have f: "fixFloatingBlocks exactArith [stackUpper, stackLower] = [stackLower, stackRested]"
    by (simp add: validator_defs stackUpper_def stackLower_def stackRested_def)
  show ?thesis
    using fix_returns_height_order[of "[stackUpper, stackLower]" exactArith] ns si f by blast
qed

section \<open>Properties of the stress engine\<close>

lemmas engine_defs = runSimulation_def runStep_def simulateBlock_def applyForce_def
  addGravityStress_def applyDeformation_def calculateStress_def effectiveForceOf_def
  alignmentOf_def distanceTo_def normalizeV_def divideScalar_def multiplyScalar_def
  subVectors_def lengthV_def dot_def distanceToSquared_def newSimulationBlock_def
  addBlock_def newEngine_def gravity_def steelCube_def anchorCube_def cubeEngine_def
  cubeMesh_def forceAbove_def concreteMesh_def pressDown_def Let_def

subsection \<open>The source's vector arithmetic computes the distance and the alignment\<close>

lemma distanceTo_spec:
  "distanceTo (worldPosition (mesh (properties b))) (forcePosition fv) = specDistance fv b"
  by (simp add: distanceTo_def distanceToSquared_def specDistance_def power2_eq_square Let_def)

lemma lengthV_sub_spec:
  "lengthV (subVectors (worldPosition (mesh (properties b))) (forcePosition fv)) = specDistance fv b"
  by (simp add: lengthV_def subVectors_def specDistance_def power2_eq_square Let_def)

lemma specDistance_zero:
  assumes "specDistance fv b = 0"
  shows "subVectors (worldPosition (mesh (properties b))) (forcePosition fv) = Vector3 0 0 0"
proof -
  let ?c = "worldPosition (mesh (properties b))" and ?o = "forcePosition fv"
  have "(vecX ?c - vecX ?o)\<^sup>2 + (vecY ?c - vecY ?o)\<^sup>2 + (vecZ ?c - vecZ ?o)\<^sup>2 = 0"
    using assms by (simp add: specDistance_def Let_def)
  then have "vecX ?c - vecX ?o = 0 \<and> vecY ?c - vecY ?o = 0 \<and> vecZ ?c - vecZ ?o = 0"
    by (simp add: sum_power2_eq_zero_iff add_nonneg_eq_0_iff)
  then show ?thesis by (simp add: subVectors_def)
qed

lemma alignmentOf_spec: "alignmentOf fv b = specAlignment fv b"
proof (cases "specDistance fv b = 0")
  case True
  then show ?thesis
    using specDistance_zero[OF True]
    by (simp add: alignmentOf_def specAlignment_def normalizeV_def divideScalar_def
          multiplyScalar_def dot_def Let_def)
next
  case False
  then show ?thesis
    by (simp add: alignmentOf_def specAlignment_def normalizeV_def lengthV_sub_spec Let_def)
       (simp add: divideScalar_def multiplyScalar_def dot_def subVectors_def)
qed

lemma effectiveForceOf_spec:
  "effectiveForceOf fv b =
     magnitude fv * \<bar>specAlignment fv b\<bar> * (1 / max 1 ((specDistance fv b)\<^sup>2)) * 100000000"
  by (simp add: effectiveForceOf_def alignmentOf_spec distanceTo_spec)

lemma abs_effectiveForceOf:
  "\<bar>effectiveForceOf fv b\<bar> =
     \<bar>magnitude fv\<bar> * \<bar>specAlignment fv b\<bar> * (1 / max 1 ((specDistance fv b)\<^sup>2)) * 100000000"
  by (simp add: effectiveForceOf_spec abs_mult)

lemma stress_applyForce:
  "stress (properties (applyForce fv b)) = \<bar>effectiveForceOf fv b\<bar> / specLimit fv b"
  by (simp add: applyForce_def calculateStress_def specLimit_def alignmentOf_spec Let_def)

lemma failed_applyForce:
  "failed (properties (applyForce fv b)) \<longleftrightarrow>
     failed (properties b) \<or> 1 \<le> \<bar>effectiveForceOf fv b\<bar> / specLimit fv b"
  by (simp add: applyForce_def calculateStress_def specLimit_def alignmentOf_spec Let_def)

lemma applyForce_frame:
  "boundaryCondition (properties (applyForce fv b)) = boundaryCondition (properties b)"
  "mass (properties (applyForce fv b)) = mass (properties b)"
  "material (properties (applyForce fv b)) = material (properties b)"
  by (simp_all add: applyForce_def calculateStress_def Let_def)

lemma stress_addGravityStress:
  "stress (properties (addGravityStress b)) =
     stress (properties b)
       + (if boundaryCondition (properties b) \<noteq> FIXED
          then mass (properties b) * 9.81 / maxCompression (material (properties b)) else 0)"
  by (simp add: addGravityStress_def gravity_def Let_def)

lemma failed_addGravityStress:
  "failed (properties (addGravityStress b)) = failed (properties b)"
  by (simp add: addGravityStress_def Let_def)

lemma applyDeformation_frame:
  "stress (properties (applyDeformation sf b)) = stress (properties b)"
  "failed (properties (applyDeformation sf b)) = failed (properties b)"
  by (simp_all add: applyDeformation_def Let_def)

lemma stress_simulateBlock:
  "stress (properties (simulateBlock ds fv b)) =
     \<bar>effectiveForceOf fv b\<bar> / specLimit fv b
       + (if boundaryCondition (properties b) \<noteq> FIXED
          then mass (properties b) * 9.81 / maxCompression (material (properties b)) else 0)"
  by (simp add: simulateBlock_def applyDeformation_frame stress_addGravityStress
        stress_applyForce applyForce_frame)

lemma failed_simulateBlock:
  "failed (properties (simulateBlock ds fv b)) \<longleftrightarrow>
     failed (properties b) \<or> 1 \<le> \<bar>effectiveForceOf fv b\<bar> / specLimit fv b"
  by (simp add: simulateBlock_def applyDeformation_frame failed_addGravityStress failed_applyForce)

lemma fold_runStep:
  "fold (runStep ds fv) bs (processed, res, failedCount, maxS) =
     (processed @ map (simulateBlock ds fv) bs,
      res @ map (\<lambda>b. (stress (properties (simulateBlock ds fv b)),
                       failed (properties (simulateBlock ds fv b)))) bs,
      failedCount + length (filter (\<lambda>b. failed (properties (simulateBlock ds fv b))) bs),
      fold (\<lambda>b m. max m (stress (properties (simulateBlock ds fv b)))) bs maxS)"
  by (induction bs arbitrary: processed res failedCount maxS)
     (simp_all add: runStep_def Let_def)

lemma runSimulation_blocks:
  "blocks (fst (runSimulation eng fv)) = map (simulateBlock (deformationScale eng) fv) (blocks eng)"
  by (simp add: runSimulation_def fold_runStep)

lemma runSimulation_results:
  "results (snd (runSimulation eng fv)) =
     map (\<lambda>b. (stress (properties (simulateBlock (deformationScale eng) fv b)),
               failed (properties (simulateBlock (deformationScale eng) fv b)))) (blocks eng)"
  by (simp add: runSimulation_def fold_runStep)

lemma runSimulation_deformationScale:
  "deformationScale (fst (runSimulation eng fv)) = deformationScale eng"
  by (simp add: runSimulation_def fold_runStep)

lemma specLimit_pos: "fromLibrary b \<Longrightarrow> 0 < specLimit fv b"
  by (cases "mtype (material (properties b))")
     (simp_all add: fromLibrary_def specLimit_def)

lemma specDistance_magnitude [simp]: "specDistance (fv\<lparr>magnitude := m\<rparr>) b = specDistance fv b"
  by (simp add: specDistance_def Let_def)

lemma specAlignment_magnitude [simp]: "specAlignment (fv\<lparr>magnitude := m\<rparr>) b = specAlignment fv b"
  by (simp add: specAlignment_def Let_def)

lemma specLimit_magnitude [simp]: "specLimit (fv\<lparr>magnitude := m\<rparr>) b = specLimit fv b"
  by (simp add: specLimit_def)

lemma stress_monotone_block:
  assumes "fromLibrary b" "\<bar>m1\<bar> \<le> \<bar>m2\<bar>"
  shows "stress (properties (simulateBlock ds (fv\<lparr>magnitude := m1\<rparr>) b))
           \<le> stress (properties (simulateBlock ds (fv\<lparr>magnitude := m2\<rparr>) b))"
proof -
  let ?c = "\<bar>specAlignment fv b\<bar> * (1 / max 1 ((specDistance fv b)\<^sup>2)) * 100000000"
  let ?e1 = "\<bar>effectiveForceOf (fv\<lparr>magnitude := m1\<rparr>) b\<bar>"
  let ?e2 = "\<bar>effectiveForceOf (fv\<lparr>magnitude := m2\<rparr>) b\<bar>"
  have c: "0 \<le> ?c" by simp
  have e1: "?e1 = \<bar>m1\<bar> * ?c" and e2: "?e2 = \<bar>m2\<bar> * ?c"
    by (simp_all add: abs_effectiveForceOf)
  have "\<bar>m1\<bar> * ?c \<le> \<bar>m2\<bar> * ?c"
    using assms(2) c by (rule mult_right_mono)
  then have "?e1 \<le> ?e2" by (simp only: e1 e2)
  then have "?e1 / specLimit fv b \<le> ?e2 / specLimit fv b"
    using specLimit_pos[OF assms(1), of fv] by (simp add: divide_right_mono)
  then show ?thesis
    by (simp add: stress_simulateBlock)
qed

lemma specForceStress_abs:
  "\<bar>effectiveForceOf fv b\<bar> / specLimit fv b
     = specForceStress (fv\<lparr>magnitude := \<bar>magnitude fv\<bar>\<rparr>) b"
  by (simp add: abs_effectiveForceOf specForceStress_def)

lemma abs_magnitude_id: "0 \<le> magnitude fv \<Longrightarrow> fv\<lparr>magnitude := \<bar>magnitude fv\<bar>\<rparr> = fv"
  by simp

lemma runSimulation_results_nth:
  "i < length (blocks eng) \<Longrightarrow>
     results (snd (runSimulation eng fv)) ! i =
       (stress (properties (simulateBlock (deformationScale eng) fv (blocks eng ! i))),
        failed (properties (simulateBlock (deformationScale eng) fv (blocks eng ! i))))"
  by (simp add: runSimulation_results)

lemma runSimulation_blocks_nth:
  "i < length (blocks eng) \<Longrightarrow>
     blocks (fst (runSimulation eng fv)) ! i
       = simulateBlock (deformationScale eng) fv (blocks eng ! i)"
  by (simp add: runSimulation_blocks)

lemma runSimulation_length: "length (blocks (fst (runSimulation eng fv))) = length (blocks eng)"
  by (simp add: runSimulation_blocks)

lemma failed_calculateStress:
  "failed (properties b) \<Longrightarrow> failed (properties (calculateStress f t b))"
  by (simp add: calculateStress_def Let_def)

lemma failed_resetSimulation:
  "b' \<in> set (blocks (resetSimulation eng)) \<Longrightarrow> \<not> failed (properties b')"
  by (auto simp: resetSimulation_def Let_def)

lemma failed_reset: "\<not> failed (properties (reset b))"
  by (simp add: reset_def Let_def)

lemma failed_clearVectors:
  "b' \<in> set (blocks (clearVectors eng)) \<Longrightarrow> \<not> failed (properties b')"
  by (auto simp: clearVectors_def failed_reset)

lemma specDistance_cube: "specDistance (forceAbove m) steelCube = 2"
  by (simp add: specDistance_def engine_defs)

lemma specAlignment_cube: "specAlignment (forceAbove m) steelCube = 1"
  by (simp add: specAlignment_def specDistance_cube) (simp add: engine_defs)

subsection \<open>The claims about \<open>runSimulation\<close>\<close>

text \<open>
  Claim C1: after \<open>runSimulation\<close>, \<open>failed\<close> is true exactly when the final stress
  ratio, self-weight included, is at least 1.0. The source checks the threshold inside
  \<open>calculateStress\<close>, before \<open>runSimulation\<close> adds the gravitational stress, and does
  not check it again. For the concrete block of 5 by 5 by 5 under \<open>pressDown\<close> the force
  alone gives 11/12; self-weight adds 0.0981; the run reports the ratio 30443/30000,
  above 1, with \<open>failed = false\<close>.
\<close>

theorem selfweight_failure_not_flagged:
  "results (snd (runSimulation (addBlock concreteMesh CONCRETE FREE newEngine) pressDown))
     = [(30443 / 30000, False)]
   \<and> stress (properties (applyForce pressDown (newSimulationBlock concreteMesh CONCRETE FREE)))
       = 11 / 12
   \<and> (1::real) \<le> 30443 / 30000"
  by (simp add: engine_defs)

text \<open>
  Claim C5: for every body processed by \<open>runSimulation\<close>, under a force whose magnitude
  is not negative (the magnitudes the engine is given: the keyboard keeps them in
  \<open>[0.5, 5]\<close>, the controllers pass the length of a vector), the stress ratio before
  self-weight equals \<open>force.magnitude \<times> |alignment| \<times> (1 / max(1, distance\<^sup>2)) \<times> 1e8\<close>
  divided by the limit the alignment thresholds select (\<open>maxCompression\<close> above 0.7,
  \<open>maxTension\<close> below -0.7, \<open>maxShear\<close> otherwise), with the alignment and the
  distance of the claim; a body that is not fixed has \<open>mass \<times> 9.81 / maxCompression\<close>
  added. Whatever the sign of the magnitude, \<open>calculateStress\<close> takes the absolute
  value of the force, so the same holds with \<open>|force.magnitude|\<close>.
\<close>

theorem stress_formula:
  "(0 \<le> magnitude fv \<longrightarrow>
        stress (properties (applyForce fv b)) = specForceStress fv b
        \<and> stress (properties (simulateBlock ds fv b)) = specStressRatio fv b
        \<and> (i < length (blocks eng) \<longrightarrow>
             fst (results (snd (runSimulation eng fv)) ! i) = specStressRatio fv (blocks eng ! i)))
   \<and> stress (properties (applyForce fv b))
     = specForceStress (fv\<lparr>magnitude := \<bar>magnitude fv\<bar>\<rparr>) b
   \<and> stress (properties (simulateBlock ds fv b))
     = specStressRatio (fv\<lparr>magnitude := \<bar>magnitude fv\<bar>\<rparr>) b
   \<and> (i < length (blocks eng) \<longrightarrow>
        fst (results (snd (runSimulation eng fv)) ! i)
          = specStressRatio (fv\<lparr>magnitude := \<bar>magnitude fv\<bar>\<rparr>) (blocks eng ! i))"
proof -
  have a: "stress (properties (applyForce fv b))
             = specForceStress (fv\<lparr>magnitude := \<bar>magnitude fv\<bar>\<rparr>) b"
    by (simp only: stress_applyForce specForceStress_abs)
  have s: "stress (properties (simulateBlock ds' fv b'))
             = specStressRatio (fv\<lparr>magnitude := \<bar>magnitude fv\<bar>\<rparr>) b'" for ds' b'
    by (simp only: stress_simulateBlock specForceStress_abs specStressRatio_def)
  have r: "i < length (blocks eng) \<longrightarrow>
        fst (results (snd (runSimulation eng fv)) ! i)
          = specStressRatio (fv\<lparr>magnitude := \<bar>magnitude fv\<bar>\<rparr>) (blocks eng ! i)"
    by (simp add: runSimulation_results s)
  have n: "0 \<le> magnitude fv \<longrightarrow>
        stress (properties (applyForce fv b)) = specForceStress fv b
        \<and> stress (properties (simulateBlock ds fv b)) = specStressRatio fv b
        \<and> (i < length (blocks eng) \<longrightarrow>
             fst (results (snd (runSimulation eng fv)) ! i) = specStressRatio fv (blocks eng ! i))"
    using a s[of ds b] r by (auto simp: abs_magnitude_id)
  show ?thesis using a s r n by blast
qed

text \<open>Witness for C5: the steel cube under a force of magnitude 1 from two units above:
  compression, distance factor 1/4, ratio 1/16 plus self-weight.\<close>

theorem stress_formula_witness:
  "(0::nat) < length (blocks cubeEngine) \<and> 0 \<le> magnitude (forceAbove 1)
   \<and> fst (results (snd (runSimulation cubeEngine (forceAbove 1))) ! 0)
        = specStressRatio (forceAbove 1) steelCube
   \<and> stress (properties (simulateBlock 5 (forceAbove 1) steelCube))
        = specStressRatio (forceAbove 1) steelCube
   \<and> specStressRatio (forceAbove 1) steelCube = 1 / 16 + 7850 * 9.81 / 400000000"
proof -
  have l: "(0::nat) < length (blocks cubeEngine)" by (simp add: engine_defs)
  have m: "0 \<le> magnitude (forceAbove 1)" by (simp add: forceAbove_def)
  have b0: "blocks cubeEngine ! 0 = steelCube" by (simp add: engine_defs)
  have fm: "(forceAbove 1)\<lparr>magnitude := \<bar>magnitude (forceAbove 1)\<bar>\<rparr> = forceAbove 1"
    by (simp add: forceAbove_def)
  have v: "specStressRatio (forceAbove 1) steelCube = 1 / 16 + 7850 * 9.81 / 400000000"
    by (simp add: specStressRatio_def specForceStress_def specLimit_def
          specDistance_cube specAlignment_cube)
       (simp add: engine_defs)
  show ?thesis
    using stress_formula[of "forceAbove 1" steelCube 5 0 cubeEngine] l m b0 fm v by simp
qed

text \<open>
  Claim C6: increasing \<open>force.magnitude\<close>, with the bodies (of library materials), the
  force origin and the force direction held fixed, never decreases a body's stress ratio
  computed by \<open>runSimulation\<close>: for every pair of magnitudes \<open>0 \<le> m1 \<le> m2\<close> (the
  engine is given no negative magnitude), every body's ratio under \<open>m1\<close> is at most its
  ratio under \<open>m2\<close>.
\<close>

theorem magnitude_monotone:
  assumes "\<forall>b\<in>set (blocks eng). fromLibrary b" "0 \<le> m1" "m1 \<le> m2" "i < length (blocks eng)"
  shows "fst (results (snd (runSimulation eng (fv\<lparr>magnitude := m1\<rparr>))) ! i)
         \<le> fst (results (snd (runSimulation eng (fv\<lparr>magnitude := m2\<rparr>))) ! i)"
proof -
  have "fromLibrary (blocks eng ! i)" using assms(1,4) by simp
  moreover have "\<bar>m1\<bar> \<le> \<bar>m2\<bar>" using assms(2,3) by simp
  ultimately show ?thesis
    using assms(4) by (simp add: runSimulation_results stress_monotone_block)
qed

text \<open>Witness for C6: the steel cube under the magnitudes 1 and 2.\<close>

theorem magnitude_monotone_witness:
  "blocks cubeEngine = [steelCube] \<and> fromLibrary steelCube \<and> (0::real) \<le> 1 \<and> (1::real) \<le> 2
   \<and> (0::nat) < length (blocks cubeEngine)
   \<and> fst (results (snd (runSimulation cubeEngine (forceAbove 1))) ! 0)
       \<le> fst (results (snd (runSimulation cubeEngine (forceAbove 2))) ! 0)"
proof -
  have c: "blocks cubeEngine = [steelCube]" by (simp add: engine_defs)
  have s: "fromLibrary steelCube" by (simp add: fromLibrary_def engine_defs)
  have l: "\<forall>b\<in>set (blocks cubeEngine). fromLibrary b" using c s by simp
  have n: "(0::nat) < length (blocks cubeEngine)" using c by simp
  have f: "(forceAbove 0)\<lparr>magnitude := m\<rparr> = forceAbove m" for m by (simp add: forceAbove_def)
  have "fst (results (snd (runSimulation cubeEngine (forceAbove 1))) ! 0)
       \<le> fst (results (snd (runSimulation cubeEngine (forceAbove 2))) ! 0)"
    using magnitude_monotone[OF l _ _ n, of 1 2 "forceAbove 0"] by (simp add: f)
  then show ?thesis using c s n by simp
qed

text \<open>
  Claim C10: the \<open>failed\<close> flag of a body is monotone. \<open>calculateStress\<close> only ever
  sets it, and the other steps of a run (gravitational stress, deformation) and
  \<open>resetDeformation\<close> leave it as it is; a body that has failed is still failed, and
  reported as failed, after any later \<open>runSimulation\<close>, whatever the force;
  \<open>resetSimulation\<close>, \<open>clearVectors\<close> and the body's own \<open>reset\<close> set it back to false.
\<close>

theorem failed_flag_sticky:
  "(failed (properties b) \<longrightarrow> failed (properties (calculateStress f t b)))
   \<and> failed (properties (addGravityStress b)) = failed (properties b)
   \<and> failed (properties (applyDeformation sf b)) = failed (properties b)
   \<and> failed (properties (resetDeformation b)) = failed (properties b)
   \<and> (i < length (blocks eng) \<and> failed (properties (blocks eng ! i)) \<longrightarrow>
        failed (properties (blocks (fst (runSimulation eng fv)) ! i))
        \<and> snd (results (snd (runSimulation eng fv)) ! i))
   \<and> (i < length (blocks eng) \<and> snd (results (snd (runSimulation eng fv)) ! i) \<longrightarrow>
        snd (results (snd (runSimulation (fst (runSimulation eng fv)) fw)) ! i))
   \<and> (\<forall>b'\<in>set (blocks (resetSimulation eng)). \<not> failed (properties b'))
   \<and> (\<forall>b'\<in>set (blocks (clearVectors eng)). \<not> failed (properties b'))
   \<and> \<not> failed (properties (reset b))"
proof (intro conjI impI ballI)
  assume "failed (properties b)"
  then show "failed (properties (calculateStress f t b))" by (rule failed_calculateStress)
next
  show "failed (properties (addGravityStress b)) = failed (properties b)"
    by (rule failed_addGravityStress)
  show "failed (properties (applyDeformation sf b)) = failed (properties b)"
    by (rule applyDeformation_frame(2))
  show "failed (properties (resetDeformation b)) = failed (properties b)"
    by (simp add: resetDeformation_def Let_def)
next
  assume a: "i < length (blocks eng) \<and> failed (properties (blocks eng ! i))"
  then have i: "i < length (blocks eng)" and f: "failed (properties (blocks eng ! i))"
    by simp_all
  show "failed (properties (blocks (fst (runSimulation eng fv)) ! i))"
    using f by (simp add: runSimulation_blocks_nth[OF i] failed_simulateBlock)
  show "snd (results (snd (runSimulation eng fv)) ! i)"
    using f by (simp add: runSimulation_results_nth[OF i] failed_simulateBlock)
next
  assume a: "i < length (blocks eng) \<and> snd (results (snd (runSimulation eng fv)) ! i)"
  then have i: "i < length (blocks eng)"
    and f: "snd (results (snd (runSimulation eng fv)) ! i)" by simp_all
  have "failed (properties (blocks (fst (runSimulation eng fv)) ! i))"
    using f by (simp add: runSimulation_results_nth[OF i] runSimulation_blocks_nth[OF i])
  then show "snd (results (snd (runSimulation (fst (runSimulation eng fv)) fw)) ! i)"
    using i by (simp add: runSimulation_results_nth runSimulation_length failed_simulateBlock)
next
  fix b' assume "b' \<in> set (blocks (resetSimulation eng))"
  then show "\<not> failed (properties b')" by (rule failed_resetSimulation)
next
  fix b' assume "b' \<in> set (blocks (clearVectors eng))"
  then show "\<not> failed (properties b')" by (rule failed_clearVectors)
next
  show "\<not> failed (properties (reset b))" by (rule failed_reset)
qed

text \<open>Witness for C10: a force of magnitude 100 fails the steel cube; a second run with
  magnitude 1 computes a ratio below 1 and still reports the cube as failed; a reset
  after the first run restores the cube as registered.\<close>

theorem failed_flag_sticky_witness:
  "(0::nat) < length (blocks cubeEngine)
   \<and> snd (results (snd (runSimulation cubeEngine (forceAbove 100))) ! 0)
   \<and> snd (results (snd (runSimulation (fst (runSimulation cubeEngine (forceAbove 100)))
                                      (forceAbove 1))) ! 0)
   \<and> fst (results (snd (runSimulation (fst (runSimulation cubeEngine (forceAbove 100)))
                                      (forceAbove 1))) ! 0) < 1
   \<and> blocks (resetSimulation (fst (runSimulation cubeEngine (forceAbove 100)))) = [steelCube]
   \<and> \<not> failed (properties steelCube)"
proof -
  have l: "(0::nat) < length (blocks cubeEngine)" by (simp add: engine_defs)
  have r1: "snd (results (snd (runSimulation cubeEngine (forceAbove 100))) ! 0)"
    by (simp add: engine_defs)
  have r2: "fst (results (snd (runSimulation (fst (runSimulation cubeEngine (forceAbove 100)))
                                            (forceAbove 1))) ! 0) < 1"
    by (simp add: engine_defs)
  have r3: "blocks (resetSimulation (fst (runSimulation cubeEngine (forceAbove 100))))
              = [steelCube]"
    by (simp add: engine_defs resetSimulation_def resetDeformation_def)
  have r4: "\<not> failed (properties steelCube)" by (simp add: engine_defs)
  show ?thesis
    using failed_flag_sticky[where b = steelCube and i = 0 and eng = cubeEngine
        and fv = "forceAbove 100" and fw = "forceAbove 1"] l r1 r2 r3 r4
    by simp
qed

subsection \<open>The claims about \<open>applyDeformation\<close> and \<open>getStressColor\<close>\<close>

text \<open>
  Claim C7: for a body whose boundary condition is Fixed, \<open>applyDeformation\<close> leaves
  the body, and so its mesh scale, unchanged, whatever the stress ratio and the scale
  factor; a body that is not fixed gets its original scale times
  \<open>1 + stressRatio \<times> 0.1 \<times> scaleFactor\<close>.
\<close>

theorem applyDeformation_fixed:
  "(boundaryCondition (properties b) = FIXED \<longrightarrow> applyDeformation sf b = b)
   \<and> (boundaryCondition (properties b) \<noteq> FIXED \<longrightarrow>
        scale (mesh (properties (applyDeformation sf b)))
          = multiplyScalar (originalScale b) (1 + stress (properties b) * 0.1 * sf))"
  by (simp add: applyDeformation_def Let_def)

text \<open>Witness for C7: the fixed and the free steel cube at stress ratio 2, deformed with
  the scale factor 5: the fixed cube keeps the scale 1, the free cube is scaled by 2.\<close>

theorem applyDeformation_fixed_witness:
  "boundaryCondition (properties (calculateStress 800000000 COMPRESSION anchorCube)) = FIXED
   \<and> stress (properties (calculateStress 800000000 COMPRESSION anchorCube)) = 2
   \<and> scale (mesh (properties (applyDeformation 5
                (calculateStress 800000000 COMPRESSION anchorCube)))) = Vector3 1 1 1
   \<and> boundaryCondition (properties (calculateStress 800000000 COMPRESSION steelCube)) \<noteq> FIXED
   \<and> scale (mesh (properties (applyDeformation 5
                (calculateStress 800000000 COMPRESSION steelCube)))) = Vector3 2 2 2"
  using applyDeformation_fixed[of "calculateStress 800000000 COMPRESSION anchorCube" 5]
        applyDeformation_fixed[of "calculateStress 800000000 COMPRESSION steelCube" 5]
  by (simp add: engine_defs)

text \<open>
  Claim C8: the stress-to-colour mapping is total: for every ratio and every failed flag
  one case of the ramp applies and \<open>getStressColor\<close> returns its colour. A failed body,
  or a ratio of at least 1.0, gives the same red \<open>0xff0000\<close> whatever the ratio; below
  1.0 the colour interpolates from green \<open>0x00ff00\<close> to yellow-green \<open>0x88ff00\<close> on
  \<open>[0, 0.3)\<close>, from yellow-green to yellow \<open>0xffff00\<close> on \<open>[0.3, 0.6)\<close>, and from
  yellow to orange \<open>0xff8800\<close> on \<open>[0.6, 1.0)\<close>.
\<close>

theorem getStressColor_piecewise:
  "specColor newColor lerp ratio isFailed = Some (getStressColor newColor lerp ratio isFailed)
   \<and> getStressColor newColor lerp ratio True = newColor 0xff0000
   \<and> (1 \<le> ratio \<longrightarrow> getStressColor newColor lerp ratio isFailed = newColor 0xff0000)
   \<and> (\<not> isFailed \<and> 0 \<le> ratio \<and> ratio < 0.3 \<longrightarrow>
        getStressColor newColor lerp ratio isFailed
          = lerp (newColor 0x00ff00) (newColor 0x88ff00) (ratio / 0.3))
   \<and> (\<not> isFailed \<and> 0.3 \<le> ratio \<and> ratio < 0.6 \<longrightarrow>
        getStressColor newColor lerp ratio isFailed
          = lerp (newColor 0x88ff00) (newColor 0xffff00) ((ratio - 0.3) / 0.3))
   \<and> (\<not> isFailed \<and> 0.6 \<le> ratio \<and> ratio < 1 \<longrightarrow>
        getStressColor newColor lerp ratio isFailed
          = lerp (newColor 0xffff00) (newColor 0xff8800) ((ratio - 0.6) / 0.4))"
  by (simp add: getStressColor_def specColor_def Let_def)

text \<open>Witness for C8: one ratio in each case, with the channel arithmetic of three.js.\<close>

theorem getStressColor_piecewise_witness:
  "getStressColor colorOfHex lerpColorsRGB 7 False = Color 1 0 0
   \<and> getStressColor colorOfHex lerpColorsRGB 0.15 True = Color 1 0 0
   \<and> getStressColor colorOfHex lerpColorsRGB 0.15 False = Color (4 / 15) 1 0
   \<and> getStressColor colorOfHex lerpColorsRGB 0.45 False = Color (23 / 30) 1 0
   \<and> getStressColor colorOfHex lerpColorsRGB 0.8 False = Color 1 (23 / 30) 0"
  using getStressColor_piecewise[of colorOfHex lerpColorsRGB 7 False]
        getStressColor_piecewise[of colorOfHex lerpColorsRGB "0.15" True]
        getStressColor_piecewise[of colorOfHex lerpColorsRGB "0.15" False]
        getStressColor_piecewise[of colorOfHex lerpColorsRGB "0.45" False]
        getStressColor_piecewise[of colorOfHex lerpColorsRGB "0.8" False]
  by (simp add: colorOfHex_def)

end
